theory Spec2Isabelle
  imports Complex_Main "HOL-Library.Word" "HOL-Library.Sublist"
begin

section \<open>JavaScript values\<close>

text \<open>
  The program is \<^verbatim>\<open>server.js\<close>: an Express application with two handlers,
  \<^verbatim>\<open>GET /weather\<close> and \<^verbatim>\<open>POST /subscribe\<close>, each wrapping one call of an S3 client.

  A JavaScript string is a sequence of UTF-16 code units, and the regular expression of
  the subscription handler (written without the \<^verbatim>\<open>u\<close> flag) works on code units, so a
  string is a list of 16-bit words. \<open>lit\<close> embeds the ASCII literals of the source.
\<close>

type_synonym code_unit = "16 word"
type_synonym js_string = "code_unit list"
type_synonym byte = "8 word"

definition lit :: "string \<Rightarrow> js_string" where
  "lit s = map of_char s"

text \<open>
  The values a parsed JSON request body, a parsed weather document and the configuration
  can hold. A finite number is \<open>JNumber\<close> of its real value; the three values of a
  double that are not finite are constructors of their own (\<^verbatim>\<open>JSON.parse\<close> gives
  \<^verbatim>\<open>Infinity\<close> or \<^verbatim>\<open>-Infinity\<close> for a literal that overflows, such as \<^verbatim>\<open>1e999\<close>). An
  object is the list of its own properties, each name once, in the order the object
  enumerates them.
\<close>

datatype js_value =
    JUndefined
  | JNull
  | JBool bool
  | JNumber real
  | JInfinity
  | JNegInfinity
  | JNaN
  | JString js_string
  | JArray "js_value list"
  | JObject "(js_string \<times> js_value) list"

text \<open>
  An \<^verbatim>\<open>Error\<close> object, as far as the handlers read it: \<^verbatim>\<open>error.name\<close> and
  \<^verbatim>\<open>error.message\<close>. The messages of the errors the runtime itself throws are written as
  V8 words them; nothing below depends on their text.
\<close>

datatype js_error = JsError (name: js_string) (message: js_string)

definition TypeError :: "js_string \<Rightarrow> js_error" where
  "TypeError msg = JsError (lit ''TypeError'') msg"

definition SyntaxError :: "js_string \<Rightarrow> js_error" where
  "SyntaxError msg = JsError (lit ''SyntaxError'') msg"

text \<open>Truthiness, as \<^verbatim>\<open>!email\<close> and \<^verbatim>\<open>a || b\<close> test it.\<close>

fun truthy :: "js_value \<Rightarrow> bool" where
  "truthy JUndefined = False"
| "truthy JNull = False"
| "truthy (JBool b) = b"
| "truthy (JNumber x) = (x \<noteq> 0)"
| "truthy JInfinity = True"
| "truthy JNegInfinity = True"
| "truthy JNaN = False"
| "truthy (JString s) = (s \<noteq> [])"
| "truthy (JArray xs) = True"
| "truthy (JObject props) = True"

text \<open>\<^verbatim>\<open>a || b\<close>: the left operand when it is truthy, the right one otherwise.\<close>

definition js_or :: "js_value \<Rightarrow> js_value \<Rightarrow> js_value" where
  "js_or a b = (if truthy a then a else b)"

text \<open>
  A promise is pending, fulfilled with a value or rejected with an error. \<open>await\<close> is
  the rest of an \<^verbatim>\<open>async\<close> function after \<^verbatim>\<open>await p\<close>: it runs on fulfilment, a
  rejection is thrown at the \<^verbatim>\<open>await\<close>, and a promise that never settles leaves the
  function suspended for good.
\<close>

datatype 'a promise = Pending | Fulfilled 'a | Rejected js_error

fun await :: "'a promise \<Rightarrow> ('a \<Rightarrow> 'b promise) \<Rightarrow> 'b promise" where
  "await Pending k = Pending"
| "await (Fulfilled v) k = k v"
| "await (Rejected e) k = Rejected e"

section \<open>Configuration\<close>

text \<open>
  \<^verbatim>\<open>process.env\<close>, after \<^verbatim>\<open>dotenv\<close> has loaded it: a list of variables with their
  string values. Reading a variable that is not set gives \<^verbatim>\<open>undefined\<close>.
\<close>

type_synonym env = "(js_string \<times> js_string) list"

definition process_env :: "env \<Rightarrow> js_string \<Rightarrow> js_value" where
  "process_env env var = (case map_of env var of None \<Rightarrow> JUndefined | Some v \<Rightarrow> JString v)"

definition PORT :: "env \<Rightarrow> js_value" where
  "PORT env = js_or (process_env env (lit ''PORT'')) (JNumber 3000)"

definition S3_BUCKET_NAME :: "env \<Rightarrow> js_value" where
  "S3_BUCKET_NAME env =
     js_or (process_env env (lit ''S3_BUCKET_NAME'')) (JString (lit ''daily-weather-output-mscac''))"

definition S3_REGION :: "env \<Rightarrow> js_value" where
  "S3_REGION env = js_or (process_env env (lit ''AWS_REGION'')) (JString (lit ''us-east-2''))"

definition WEATHER_FILE_KEY :: js_string where
  "WEATHER_FILE_KEY = lit ''daily-data/prediction.json''"

definition SUBSCRIPTIONS_PATH :: js_string where
  "SUBSCRIPTIONS_PATH = lit ''subscribers/''"

section \<open>The S3 client\<close>

text \<open>
  The two commands the handlers build, with the parameters they set. The client is not
  part of the program: it is a parameter of the handlers, any function from a command
  and the state of the outside world to a promise and the next state. \<open>s3Client_send\<close>
  records every command passed to \<^verbatim>\<open>s3Client.send\<close>, so that what a handler asked of the
  store can be read off afterwards.
\<close>

record get_object_params =
  Bucket :: js_value
  Key :: js_string

record put_object_params = get_object_params +
  Body :: js_value
  ContentType :: js_string

datatype command =
    GetObjectCommand get_object_params
  | PutObjectCommand put_object_params

text \<open>The body of a \<^verbatim>\<open>GetObject\<close> response is a readable stream: the events it emits, in
  order.\<close>

datatype stream_event = Data "byte list" | Error js_error | End

type_synonym readable = "stream_event list"

datatype s3_output = GetObjectOutput readable | PutObjectOutput

type_synonym 'w s3Client = "command \<Rightarrow> 'w \<Rightarrow> s3_output promise \<times> 'w"

record 'w sys =
  world :: 'w
  sent :: "command list"

definition s3Client_send :: "'w s3Client \<Rightarrow> command \<Rightarrow> 'w sys \<Rightarrow> s3_output promise \<times> 'w sys" where
  "s3Client_send client command sys =
     (case client command (world sys) of
        (p, w) \<Rightarrow> (p, \<lparr>world = w, sent = sent sys @ [command]\<rparr>))"

section \<open>The runtime's functions\<close>

text \<open>
  \<^verbatim>\<open>Buffer.prototype.toString('utf-8')\<close> and \<^verbatim>\<open>JSON.parse\<close> belong to the JavaScript
  runtime, not to the program; the handlers take them as parameters. Decoding is total
  (bytes that are not UTF-8 decode to replacement characters); \<^verbatim>\<open>JSON.parse\<close> returns
  the parsed value or throws a \<^verbatim>\<open>SyntaxError\<close>, given here by its message.
\<close>

record runtime =
  toString_utf8 :: "byte list \<Rightarrow> js_string"
  JSON_parse :: "js_string \<Rightarrow> js_string + js_value"

section \<open>streamToString\<close>

text \<open>
  \<^verbatim>\<open>streamToString\<close> returns a promise and registers three listeners: \<^verbatim>\<open>data\<close> pushes
  the chunk, \<^verbatim>\<open>error\<close> rejects, \<^verbatim>\<open>end\<close> resolves with the concatenated chunks decoded
  as UTF-8. A promise settles once, so the first \<^verbatim>\<open>error\<close> or \<^verbatim>\<open>end\<close> decides; a stream
  that emits neither leaves the promise pending.
\<close>

fun stream_listen :: "runtime \<Rightarrow> readable \<Rightarrow> byte list list \<Rightarrow> js_string promise" where
  "stream_listen rt [] chunks = Pending"
| "stream_listen rt (Data chunk # events) chunks = stream_listen rt events (chunks @ [chunk])"
| "stream_listen rt (Error e # events) chunks = Rejected e"
| "stream_listen rt (End # events) chunks = Fulfilled (toString_utf8 rt (concat chunks))"

text \<open>
  \<^verbatim>\<open>s3Response.Body\<close> is the stream of a \<^verbatim>\<open>GetObject\<close> response and \<^verbatim>\<open>undefined\<close> on
  any other response; \<^verbatim>\<open>stream.on\<close> of \<^verbatim>\<open>undefined\<close> throws inside the promise's
  executor, which rejects the promise.
\<close>

fun streamToString :: "runtime \<Rightarrow> s3_output \<Rightarrow> js_string promise" where
  "streamToString rt (GetObjectOutput stream) = stream_listen rt stream []"
| "streamToString rt PutObjectOutput =
     Rejected (TypeError (lit ''Cannot read properties of undefined (reading 'on')''))"

section \<open>res.status(code).json(value)\<close>

text \<open>
  \<^verbatim>\<open>res.json\<close> sends the text \<^verbatim>\<open>JSON.stringify(value)\<close>. \<open>stringified\<close> is the JSON value
  that text denotes, which is what a reader of the response gets: a number that is not
  finite is written as \<^verbatim>\<open>null\<close>, an array element that is \<^verbatim>\<open>undefined\<close> is written as
  \<^verbatim>\<open>null\<close>, a property whose value is \<^verbatim>\<open>undefined\<close> is left out, and every other value
  is written as it is. (For \<^verbatim>\<open>undefined\<close> itself nothing is written.)
\<close>

fun stringified :: "js_value \<Rightarrow> js_value" where
  "stringified JInfinity = JNull"
| "stringified JNegInfinity = JNull"
| "stringified JNaN = JNull"
| "stringified (JArray xs) =
     JArray (map (\<lambda>x. if x = JUndefined then JNull else stringified x) xs)"
| "stringified (JObject props) =
     JObject (map (\<lambda>(k, v). (k, stringified v)) (filter (\<lambda>(k, v). v \<noteq> JUndefined) props))"
| "stringified v = v"

text \<open>A response, as its reader sees it: the status and the JSON value of the body.\<close>

record response =
  status :: nat
  json :: js_value

definition res_status_json :: "nat \<Rightarrow> js_value \<Rightarrow> response" where
  "res_status_json code v = \<lparr>status = code, json = stringified v\<rparr>"

text \<open>
  The values that JSON text writes exactly: those that hold no \<^verbatim>\<open>undefined\<close> and no
  number that is not finite, at any depth.
\<close>

fun plain_json :: "js_value \<Rightarrow> bool" where
  "plain_json JUndefined = False"
| "plain_json JInfinity = False"
| "plain_json JNegInfinity = False"
| "plain_json JNaN = False"
| "plain_json (JArray xs) = list_all plain_json xs"
| "plain_json (JObject props) = list_all (\<lambda>(k, v). plain_json v) props"
| "plain_json v = True"

section \<open>GET /weather\<close>

text \<open>
  How a request ends: the handler sent a response, or its promise rejected with an error
  no \<^verbatim>\<open>catch\<close> of the handler took (it sent nothing), or it stays suspended at an
  \<^verbatim>\<open>await\<close> that never settles.
\<close>

datatype outcome = Responded response | Uncaught js_error | Hung

text \<open>The \<^verbatim>\<open>try\<close> block up to \<^verbatim>\<open>weatherData\<close>, and the \<^verbatim>\<open>catch\<close> block.\<close>

definition weather_try :: "runtime \<Rightarrow> 'w s3Client \<Rightarrow> env \<Rightarrow> 'w sys \<Rightarrow> js_value promise \<times> 'w sys" where
  "weather_try rt client env sys =
     (let getObjectParams = \<lparr>Bucket = S3_BUCKET_NAME env, Key = WEATHER_FILE_KEY\<rparr>;
          command = GetObjectCommand getObjectParams
      in case s3Client_send client command sys of
        (sending, sys') \<Rightarrow>
          (await sending (\<lambda>s3Response.
             await (streamToString rt s3Response) (\<lambda>contentString.
               case JSON_parse rt contentString of
                 Inl msg \<Rightarrow> Rejected (SyntaxError msg)
               | Inr weatherData \<Rightarrow> Fulfilled weatherData)),
           sys'))"

definition weather_catch :: "js_error \<Rightarrow> response" where
  "weather_catch error =
     (if name error = lit ''NoSuchKey''
      then res_status_json 404
             (JObject [(lit ''message'', JString (lit ''Weather prediction file not found.''))])
      else res_status_json 500
             (JObject [(lit ''message'', JString (lit ''Failed to fetch weather data.'')),
                       (lit ''error'', JString (message error))]))"

definition get_weather :: "runtime \<Rightarrow> 'w s3Client \<Rightarrow> env \<Rightarrow> 'w sys \<Rightarrow> outcome \<times> 'w sys" where
  "get_weather rt client env sys =
     (case weather_try rt client env sys of
        (Pending, sys') \<Rightarrow> (Hung, sys')
      | (Fulfilled weatherData, sys') \<Rightarrow> (Responded (res_status_json 200 weatherData), sys')
      | (Rejected error, sys') \<Rightarrow> (Responded (weather_catch error), sys'))"

section \<open>POST /subscribe\<close>

text \<open>
  \<^verbatim>\<open>const { email } = req.body\<close>: destructuring \<^verbatim>\<open>undefined\<close> or \<^verbatim>\<open>null\<close> throws; an
  object gives its own property \<^verbatim>\<open>email\<close>, or \<^verbatim>\<open>undefined\<close> when it has none; an array
  or a primitive has no property of that name.
\<close>

fun body_email :: "js_value \<Rightarrow> js_error + js_value" where
  "body_email JUndefined =
     Inl (TypeError (lit ''Cannot destructure property 'email' of 'req.body' as it is undefined.''))"
| "body_email JNull =
     Inl (TypeError (lit ''Cannot destructure property 'email' of 'req.body' as it is null.''))"
| "body_email (JObject props) =
     Inr (case map_of props (lit ''email'') of None \<Rightarrow> JUndefined | Some v \<Rightarrow> v)"
| "body_email other = Inr JUndefined"

text \<open>\<^verbatim>\<open>String.prototype.includes\<close>: the search string occurs somewhere in the string.\<close>

fun string_includes :: "js_string \<Rightarrow> js_string \<Rightarrow> bool" where
  "string_includes [] searchString = (searchString = [])"
| "string_includes (c # cs) searchString =
     (prefix searchString (c # cs) \<or> string_includes cs searchString)"

text \<open>
  \<^verbatim>\<open>email.includes(s)\<close> for a string \<open>s\<close>, by the type of \<^verbatim>\<open>email\<close>: a string searches
  for \<open>s\<close>, an array looks for an element equal to the string \<open>s\<close>, and a boolean, a
  number or an object of a JSON body has no method \<^verbatim>\<open>includes\<close>, so the call throws.
\<close>

fun js_includes :: "js_value \<Rightarrow> js_string \<Rightarrow> js_error + bool" where
  "js_includes (JString s) searchString = Inr (string_includes s searchString)"
| "js_includes (JArray xs) searchElement = Inr (list_ex (\<lambda>x. x = JString searchElement) xs)"
| "js_includes other searchString = Inl (TypeError (lit ''email.includes is not a function''))"

text \<open>
  A character class of a regular expression: a list of ranges and single characters,
  negated or not. \<^verbatim>\<open>/[^a-zA-Z0-9-_.@]/g\<close> is the negated class of the ranges \<^verbatim>\<open>a-z\<close>,
  \<^verbatim>\<open>A-Z\<close>, \<^verbatim>\<open>0-9\<close> and the characters \<^verbatim>\<open>-\<close>, \<^verbatim>\<open>_\<close>, \<^verbatim>\<open>.\<close>, \<^verbatim>\<open>@\<close> (the hyphen after the
  range \<^verbatim>\<open>0-9\<close> stands for itself).
\<close>

datatype class_atom = ClassRange code_unit code_unit | ClassChar code_unit

record char_class =
  negated :: bool
  atoms :: "class_atom list"

fun atom_matches :: "class_atom \<Rightarrow> code_unit \<Rightarrow> bool" where
  "atom_matches (ClassRange lo hi) c = (lo \<le> c \<and> c \<le> hi)"
| "atom_matches (ClassChar a) c = (c = a)"

definition class_matches :: "char_class \<Rightarrow> code_unit \<Rightarrow> bool" where
  "class_matches cls c =
     (if negated cls then \<not> list_ex (\<lambda>a. atom_matches a c) (atoms cls)
      else list_ex (\<lambda>a. atom_matches a c) (atoms cls))"

definition email_pattern :: char_class where
  "email_pattern =
     \<lparr>negated = True,
      atoms = [ClassRange (of_char CHR ''a'') (of_char CHR ''z''),
               ClassRange (of_char CHR ''A'') (of_char CHR ''Z''),
               ClassRange (of_char CHR ''0'') (of_char CHR ''9''),
               ClassChar (of_char CHR ''-''), ClassChar (of_char CHR ''_''),
               ClassChar (of_char CHR ''.''), ClassChar (of_char CHR ''@'')]\<rparr>"

text \<open>
  \<^verbatim>\<open>str.replace(pattern, newSubstr)\<close> for a global pattern that is one character class:
  scanning from the left, every code unit the class matches is replaced by
  \<open>newSubstr\<close>, every other one is kept.
\<close>

fun replace_global :: "char_class \<Rightarrow> js_string \<Rightarrow> js_string \<Rightarrow> js_string" where
  "replace_global cls newSubstr [] = []"
| "replace_global cls newSubstr (c # cs) =
     (if class_matches cls c then newSubstr @ replace_global cls newSubstr cs
      else c # replace_global cls newSubstr cs)"

definition sanitize :: "js_string \<Rightarrow> js_string" where
  "sanitize email = replace_global email_pattern [] email"

text \<open>\<^verbatim>\<open>email.replace(/[^a-zA-Z0-9-_.@]/g, '')\<close>, by the type of \<^verbatim>\<open>email\<close>: only a string
  has the method.\<close>

fun js_replace :: "js_value \<Rightarrow> js_error + js_string" where
  "js_replace (JString s) = Inr (sanitize s)"
| "js_replace other = Inl (TypeError (lit ''email.replace is not a function''))"

text \<open>
  The condition \<^verbatim>\<open>!email || !email.includes('@')\<close>: its value, or the error its
  evaluation throws. The right operand is evaluated only when the left one is false.
\<close>

definition invalid_email :: "js_value \<Rightarrow> js_error + bool" where
  "invalid_email email =
     (if \<not> truthy email then Inr True
      else case js_includes email (lit ''@'') of
        Inl err \<Rightarrow> Inl err
      | Inr found \<Rightarrow> Inr (\<not> found))"

text \<open>The \<^verbatim>\<open>try\<close> and \<^verbatim>\<open>catch\<close> blocks around the write.\<close>

definition subscribe_put :: "'w s3Client \<Rightarrow> env \<Rightarrow> js_value \<Rightarrow> js_string \<Rightarrow> 'w sys \<Rightarrow> outcome \<times> 'w sys" where
  "subscribe_put client env email sanitizedEmail sys =
     (let s3Key = SUBSCRIPTIONS_PATH @ sanitizedEmail;
          putObjectParams =
            \<lparr>Bucket = S3_BUCKET_NAME env, Key = s3Key, Body = email,
             ContentType = lit ''text/plain''\<rparr>;
          command = PutObjectCommand putObjectParams
      in case s3Client_send client command sys of
        (Pending, sys') \<Rightarrow> (Hung, sys')
      | (Fulfilled ack, sys') \<Rightarrow>
          (Responded (res_status_json 201
                        (JObject [(lit ''message'', JString (lit ''Subscription successful!''))])),
           sys')
      | (Rejected error, sys') \<Rightarrow>
          (Responded (res_status_json 500
                        (JObject [(lit ''message'', JString (lit ''Failed to save subscription.'')),
                                  (lit ''error'', JString (message error))])),
           sys'))"

definition post_subscribe :: "'w s3Client \<Rightarrow> env \<Rightarrow> js_value \<Rightarrow> 'w sys \<Rightarrow> outcome \<times> 'w sys" where
  "post_subscribe client env body sys =
     (case body_email body of
        Inl err \<Rightarrow> (Uncaught err, sys)
      | Inr email \<Rightarrow>
          (case invalid_email email of
             Inl err \<Rightarrow> (Uncaught err, sys)
           | Inr True \<Rightarrow>
               (Responded (res_status_json 400
                             (JObject [(lit ''message'',
                                        JString (lit ''Invalid email address provided.''))])),
                sys)
           | Inr False \<Rightarrow>
               (case js_replace email of
                  Inl err \<Rightarrow> (Uncaught err, sys)
                | Inr sanitizedEmail \<Rightarrow> subscribe_put client env email sanitizedEmail sys)))"

section \<open>The retained characters, as the specification lists them\<close>

text \<open>
  The specification describes sanitisation by the set of characters it keeps,
  \<^verbatim>\<open>[A-Za-z0-9\-_.@]\<close>. \<open>retained\<close> is that set written out character by character,
  independently of the ranges of \<open>email_pattern\<close>.
\<close>

definition retained :: "code_unit \<Rightarrow> bool" where
  "retained c = (c \<in> set (lit
     ''ABCDEFGHIJKLMNOPQRSTUVWXYZabcdefghijklmnopqrstuvwxyz0123456789-_.@''))"

section \<open>Lemmas about the regular expression and the string methods\<close>

lemma range_enum:
  fixes c :: code_unit
  shows "(lo \<le> c \<and> c \<le> hi) = (c \<in> set (map of_nat [unat lo..<Suc (unat hi)]))"
proof -
  have "(lo \<le> c \<and> c \<le> hi) = (unat c \<in> set [unat lo..<Suc (unat hi)])"
    by (auto simp: word_le_nat_alt)
  also have "\<dots> = (c \<in> set (map of_nat [unat lo..<Suc (unat hi)]))"
  proof
    assume "unat c \<in> set [unat lo..<Suc (unat hi)]"
    then have "of_nat (unat c) \<in> (of_nat :: nat \<Rightarrow> code_unit) ` set [unat lo..<Suc (unat hi)]"
      by (rule imageI)
    then show "c \<in> set (map of_nat [unat lo..<Suc (unat hi)])" by simp
  next
    assume "c \<in> set (map of_nat [unat lo..<Suc (unat hi)])"
    then obtain n where n: "unat lo \<le> n" "n \<le> unat hi" "c = of_nat n" by auto
    have "n < 2 ^ 16" using n(2) unsigned_less [of hi, where ?'a = nat] by simp
    then have "unat c = n" using n(3) by (simp add: unat_of_nat)
    then show "unat c \<in> set [unat lo..<Suc (unat hi)]" using n by auto
  qed
  finally show ?thesis .
qed

lemma class_retained: "class_matches email_pattern c = (\<not> retained c)"
  unfolding class_matches_def email_pattern_def retained_def lit_def
  by (simp add: range_enum upt_rec) auto

lemma replace_global_delete:
  "replace_global cls [] s = filter (\<lambda>c. \<not> class_matches cls c) s"
  by (induction s) simp_all

lemma sanitize_filter: "sanitize e = filter retained e"
  by (simp add: sanitize_def replace_global_delete class_retained)

lemma at_retained: "retained (of_char CHR ''@'')"
  by (simp add: retained_def lit_def)

lemma sanitize_keeps_at:
  "of_char CHR ''@'' \<in> set e \<Longrightarrow> of_char CHR ''@'' \<in> set (sanitize e)"
  using at_retained by (simp add: sanitize_filter)

lemma string_includes_single: "string_includes s [a] = (a \<in> set s)"
  by (induction s) auto

lemma invalid_email_string: "invalid_email (JString e) = Inr (of_char CHR ''@'' \<notin> set e)"
  by (auto simp: invalid_email_def lit_def string_includes_single)

lemma lit_append: "lit a @ lit b = lit (a @ b)"
  by (simp add: lit_def)

lemma subscriber_key_not_weather_key: "SUBSCRIPTIONS_PATH @ s \<noteq> WEATHER_FILE_KEY"
  by (simp add: SUBSCRIPTIONS_PATH_def WEATHER_FILE_KEY_def lit_def)

section \<open>Lemmas about the handlers\<close>

text \<open>In the proofs a response is unfolded into its status and the value of its body.\<close>

declare res_status_json_def [simp]

text \<open>A value without \<^verbatim>\<open>undefined\<close> and without a number that is not finite is written as
  it is.\<close>

lemma stringified_plain: "plain_json v \<Longrightarrow> stringified v = v"
proof (induction v rule: stringified.induct)
  case (4 xs)
  have "map (\<lambda>x. if x = JUndefined then JNull else stringified x) xs = xs"
  proof (rule map_idI)
    fix x assume x: "x \<in> set xs"
    with 4(2) have plain: "plain_json x" by (simp add: list_all_iff)
    then have "x \<noteq> JUndefined" by auto
    with x plain 4(1) show "(if x = JUndefined then JNull else stringified x) = x" by simp
  qed
  then show ?case by simp
next
  case (5 props)
  have plain: "plain_json v" if "(k, v) \<in> set props" for k v
    using 5(2) that by (auto simp: list_all_iff)
  have defined: "v \<noteq> JUndefined" if "(k, v) \<in> set props" for k v
    using plain [OF that] by auto
  have keep: "filter (\<lambda>(k, v). v \<noteq> JUndefined) props = props"
    using defined by (auto simp: filter_id_conv)
  have "map (\<lambda>(k, v). (k, stringified v)) props = props"
  proof (rule map_idI)
    fix p assume p: "p \<in> set props"
    obtain k v where kv: "p = (k, v)" by (cases p)
    with p have kept: "(k, v) \<in> set (filter (\<lambda>(k, v). v \<noteq> JUndefined) props)"
      by (simp add: keep)
    have "plain_json v" using p kv plain by simp
    with kept have "stringified v = v" by (rule 5(1) [OF _ refl])
    with kv show "(case p of (k, v) \<Rightarrow> (k, stringified v)) = p" by simp
  qed
  with keep show ?case by simp
qed simp_all

text \<open>
  What \<open>streamToString\<close> makes of a stream that delivers chunks and then ends, or
  fails.
\<close>

lemma stream_listen_chunks:
  "stream_listen rt (map Data chunks @ End # later) acc =
     Fulfilled (toString_utf8 rt (concat (acc @ chunks)))"
  by (induction chunks arbitrary: acc) simp_all

lemma stream_listen_error:
  "stream_listen rt (map Data chunks @ Error error # later) acc = Rejected error"
  by (induction chunks arbitrary: acc) simp_all

text \<open>
  The \<^verbatim>\<open>try\<close> block of \<^verbatim>\<open>GET /weather\<close> fails when the store rejects the read, when the
  body stream fails, and when the content does not parse; every failure reaches the
  \<^verbatim>\<open>catch\<close> block.
\<close>

lemma weather_try_send_rejected:
  "fst (client (GetObjectCommand \<lparr>Bucket = S3_BUCKET_NAME env, Key = WEATHER_FILE_KEY\<rparr>) (world sys))
     = Rejected error \<Longrightarrow>
   fst (weather_try rt client env sys) = Rejected error"
  by (cases "client (GetObjectCommand \<lparr>Bucket = S3_BUCKET_NAME env, Key = WEATHER_FILE_KEY\<rparr>) (world sys)")
     (simp add: weather_try_def s3Client_send_def Let_def)

lemma weather_try_stream_error:
  "fst (client (GetObjectCommand \<lparr>Bucket = S3_BUCKET_NAME env, Key = WEATHER_FILE_KEY\<rparr>) (world sys))
     = Fulfilled (GetObjectOutput (map Data chunks @ Error error # later)) \<Longrightarrow>
   fst (weather_try rt client env sys) = Rejected error"
  by (cases "client (GetObjectCommand \<lparr>Bucket = S3_BUCKET_NAME env, Key = WEATHER_FILE_KEY\<rparr>) (world sys)")
     (simp add: weather_try_def s3Client_send_def Let_def stream_listen_error)

lemma weather_try_parse_error:
  "fst (client (GetObjectCommand \<lparr>Bucket = S3_BUCKET_NAME env, Key = WEATHER_FILE_KEY\<rparr>) (world sys))
     = Fulfilled (GetObjectOutput (map Data chunks @ End # later)) \<Longrightarrow>
   JSON_parse rt (toString_utf8 rt (concat chunks)) = Inl msg \<Longrightarrow>
   fst (weather_try rt client env sys) = Rejected (SyntaxError msg)"
  by (cases "client (GetObjectCommand \<lparr>Bucket = S3_BUCKET_NAME env, Key = WEATHER_FILE_KEY\<rparr>) (world sys)")
     (simp add: weather_try_def s3Client_send_def Let_def stream_listen_chunks)

lemma get_weather_rejected:
  "fst (weather_try rt client env sys) = Rejected error \<Longrightarrow>
   fst (get_weather rt client env sys) = Responded (weather_catch error)"
  by (cases "weather_try rt client env sys") (simp add: get_weather_def)

lemma weather_catch_other:
  "name error \<noteq> lit ''NoSuchKey'' \<Longrightarrow>
   weather_catch error =
     \<lparr>status = 500,
      json = JObject [(lit ''message'', JString (lit ''Failed to fetch weather data.'')),
                      (lit ''error'', JString (message error))]\<rparr>"
  by (simp add: weather_catch_def)

lemma SyntaxError_not_NoSuchKey: "name (SyntaxError msg) \<noteq> lit ''NoSuchKey''"
  by (simp add: SyntaxError_def lit_def)

text \<open>
  \<^verbatim>\<open>POST /subscribe\<close>: the two ways past the validation of a body, and the commands
  the handler sends.
\<close>

lemma post_subscribe_invalid:
  "body_email body = Inr email \<Longrightarrow> invalid_email email = Inr True \<Longrightarrow>
   post_subscribe client env body sys =
     (Responded \<lparr>status = 400,
                 json = JObject [(lit ''message'', JString (lit ''Invalid email address provided.''))]\<rparr>,
      sys)"
  by (simp add: post_subscribe_def)

lemma post_subscribe_string:
  "body_email body = Inr (JString e) \<Longrightarrow> of_char CHR ''@'' \<in> set e \<Longrightarrow>
   post_subscribe client env body sys = subscribe_put client env (JString e) (sanitize e) sys"
  by (simp add: post_subscribe_def invalid_email_string)

lemma subscribe_put_sent:
  "sent (snd (subscribe_put client env email s sys)) =
     sent sys @ [PutObjectCommand \<lparr>Bucket = S3_BUCKET_NAME env, Key = SUBSCRIPTIONS_PATH @ s,
                                   Body = email, ContentType = lit ''text/plain''\<rparr>]"
  by (simp add: subscribe_put_def s3Client_send_def Let_def split: prod.splits promise.splits)

lemma post_subscribe_sent:
  "sent (snd (post_subscribe client env body sys)) = sent sys
   \<or> (\<exists>e. of_char CHR ''@'' \<in> set e
          \<and> sent (snd (post_subscribe client env body sys)) =
              sent sys @ [PutObjectCommand \<lparr>Bucket = S3_BUCKET_NAME env,
                                            Key = SUBSCRIPTIONS_PATH @ sanitize e,
                                            Body = JString e,
                                            ContentType = lit ''text/plain''\<rparr>])"
proof (cases "body_email body")
  case (Inl err)
  then show ?thesis by (simp add: post_subscribe_def)
next
  case (Inr email)
  show ?thesis
  proof (cases "invalid_email email")
    case (Inl err)
    with Inr show ?thesis by (simp add: post_subscribe_def)
  next
    case invalid: (Inr b)
    show ?thesis
    proof (cases b)
      case True
      with Inr invalid show ?thesis by (simp add: post_subscribe_def)
    next
      case False
      show ?thesis
      proof (cases email)
        case (JString e)
        with invalid False have at: "of_char CHR ''@'' \<in> set e"
          by (simp add: invalid_email_string)
        from Inr JString have "body_email body = Inr (JString e)" by simp
        then have "post_subscribe client env body sys =
                     subscribe_put client env (JString e) (sanitize e) sys"
          using at by (rule post_subscribe_string)
        then show ?thesis using at by (auto simp: subscribe_put_sent)
      qed (use Inr invalid False in \<open>simp_all add: post_subscribe_def\<close>)
    qed
  qed
qed

text \<open>
  However the store behaves, \<^verbatim>\<open>GET /weather\<close> ends in a response with status 200, 404 or
  500 unless the store never answers, and so does \<^verbatim>\<open>POST /subscribe\<close> with 400, 201 or
  500 when the \<^verbatim>\<open>email\<close> field is absent or a string.
\<close>

lemma get_weather_responds:
  "fst (get_weather rt client env sys) = Hung
   \<or> (\<exists>r. fst (get_weather rt client env sys) = Responded r
          \<and> (status r = 200 \<or> status r = 404 \<or> status r = 500))"
proof (cases "weather_try rt client env sys")
  case (Pair p sys')
  then show ?thesis
    by (cases p) (simp_all add: get_weather_def weather_catch_def)
qed

lemma subscribe_put_responds:
  "fst (subscribe_put client env email s sys) = Hung
   \<or> (\<exists>r. fst (subscribe_put client env email s sys) = Responded r
          \<and> (status r = 201 \<or> status r = 500))"
proof (cases "client (PutObjectCommand \<lparr>Bucket = S3_BUCKET_NAME env, Key = SUBSCRIPTIONS_PATH @ s,
                                        Body = email, ContentType = lit ''text/plain''\<rparr>) (world sys)")
  case (Pair p w)
  then show ?thesis
    by (cases p) (simp_all add: subscribe_put_def s3Client_send_def)
qed

lemma post_subscribe_string_responds:
  assumes "body_email body = Inr JUndefined \<or> body_email body = Inr (JString e)"
  shows "fst (post_subscribe client env body sys) = Hung
         \<or> (\<exists>r. fst (post_subscribe client env body sys) = Responded r
                \<and> (status r = 400 \<or> status r = 201 \<or> status r = 500))"
proof -
  from assms consider
      (absent) "body_email body = Inr JUndefined"
    | (no_at) "body_email body = Inr (JString e)" "of_char CHR ''@'' \<notin> set e"
    | (valid) "body_email body = Inr (JString e)" "of_char CHR ''@'' \<in> set e"
    by auto
  then show ?thesis
  proof cases
    case absent
    moreover have "invalid_email JUndefined = Inr True" by (simp add: invalid_email_def)
    ultimately show ?thesis by (simp add: post_subscribe_invalid)
  next
    case no_at
    then have "invalid_email (JString e) = Inr True" by (simp add: invalid_email_string)
    with no_at(1) show ?thesis by (simp add: post_subscribe_invalid)
  next
    case valid
    then have "post_subscribe client env body sys =
                 subscribe_put client env (JString e) (sanitize e) sys"
      by (rule post_subscribe_string)
    with subscribe_put_responds [of client env "JString e" "sanitize e" sys]
    show ?thesis by auto
  qed
qed

section \<open>C1: the weather document is returned as JSON text writes it\<close>

text \<open>
  C1, as the claim states it, fails for a valid document with a number too large for a
  double, such as \<^verbatim>\<open>{"t":1e999}\<close>: \<^verbatim>\<open>JSON.parse\<close> gives \<^verbatim>\<open>Infinity\<close> for the literal, and
  \<^verbatim>\<open>res.json\<close> writes \<^verbatim>\<open>Infinity\<close> as \<^verbatim>\<open>null\<close>. The response is 200 with the body
  \<^verbatim>\<open>{"t":null}\<close>, which is not the document.
\<close>

theorem weather_overflow_counterexample:
  \<open>JSON_parse
     \<lparr>toString_utf8 = map ucast,
      JSON_parse = (\<lambda>s. if s = lit ''{"t":1e999}''
                         then Inr (JObject [(lit ''t'', JInfinity)])
                         else Inl (lit ''Unexpected token''))\<rparr>
     (map ucast (concat [map of_char ''{"t":1e999}'' :: byte list]))
     = Inr (JObject [(lit ''t'', JInfinity)])
   \<and> fst (get_weather
          \<lparr>toString_utf8 = map ucast,
           JSON_parse = (\<lambda>s. if s = lit ''{"t":1e999}''
                              then Inr (JObject [(lit ''t'', JInfinity)])
                              else Inl (lit ''Unexpected token''))\<rparr>
          (\<lambda>command w. (Fulfilled (GetObjectOutput [Data (map of_char ''{"t":1e999}''), End]), w))
          [] \<lparr>world = (), sent = []\<rparr>)
     = Responded \<lparr>status = 200, json = JObject [(lit ''t'', JNull)]\<rparr>
   \<and> fst (get_weather
          \<lparr>toString_utf8 = map ucast,
           JSON_parse = (\<lambda>s. if s = lit ''{"t":1e999}''
                              then Inr (JObject [(lit ''t'', JInfinity)])
                              else Inl (lit ''Unexpected token''))\<rparr>
          (\<lambda>command w. (Fulfilled (GetObjectOutput [Data (map of_char ''{"t":1e999}''), End]), w))
          [] \<lparr>world = (), sent = []\<rparr>)
     \<noteq> Responded \<lparr>status = 200, json = JObject [(lit ''t'', JInfinity)]\<rparr>\<close>
  by (simp add: get_weather_def weather_try_def s3Client_send_def lit_def)

text \<open>
  C1, amended. Let the store answer the read of the weather key in the configured bucket
  with a body stream that delivers the stored bytes, in any number of chunks, and then
  ends, and let these bytes, decoded as UTF-8, parse as the JSON document \<open>document\<close>.
  Then \<^verbatim>\<open>GET /weather\<close> responds with status 200 and with the document as
  \<^verbatim>\<open>JSON.stringify\<close> writes it, and the read is the only command it sent. When the parsed
  document holds no number that is not finite, the body is exactly the document.
\<close>

theorem weather_roundtrip:
  assumes "client (GetObjectCommand \<lparr>Bucket = S3_BUCKET_NAME env, Key = WEATHER_FILE_KEY\<rparr>) (world sys)
             = (Fulfilled (GetObjectOutput (map Data chunks @ End # later)), w)"
    and "JSON_parse rt (toString_utf8 rt (concat chunks)) = Inr document"
  shows "get_weather rt client env sys =
           (Responded \<lparr>status = 200, json = stringified document\<rparr>,
            \<lparr>world = w,
             sent = sent sys @ [GetObjectCommand \<lparr>Bucket = S3_BUCKET_NAME env, Key = WEATHER_FILE_KEY\<rparr>]\<rparr>)
         \<and> (plain_json document \<longrightarrow>
              get_weather rt client env sys =
                (Responded \<lparr>status = 200, json = document\<rparr>,
                 \<lparr>world = w,
                  sent = sent sys @ [GetObjectCommand \<lparr>Bucket = S3_BUCKET_NAME env, Key = WEATHER_FILE_KEY\<rparr>]\<rparr>))"
proof -
  have written: "get_weather rt client env sys =
           (Responded \<lparr>status = 200, json = stringified document\<rparr>,
            \<lparr>world = w,
             sent = sent sys @ [GetObjectCommand \<lparr>Bucket = S3_BUCKET_NAME env, Key = WEATHER_FILE_KEY\<rparr>]\<rparr>)"
    using assms
    by (simp add: get_weather_def weather_try_def s3Client_send_def Let_def stream_listen_chunks)
  then show ?thesis
    by (simp add: stringified_plain)
qed

text \<open>
  Scenario 1 of the specification: the store holds \<^verbatim>\<open>{"weatherCode":2}\<close> and delivers it
  in two chunks; no environment variable is set.
\<close>

theorem weather_roundtrip_witness:
  \<open>get_weather
     \<lparr>toString_utf8 = map ucast,
      JSON_parse = (\<lambda>s. if s = lit ''{"weatherCode":2}''
                         then Inr (JObject [(lit ''weatherCode'', JNumber 2)])
                         else Inl (lit ''Unexpected token''))\<rparr>
     (\<lambda>command w. (Fulfilled (GetObjectOutput
        [Data (map of_char ''{"weather''), Data (map of_char ''Code":2}''), End]), w))
     [] \<lparr>world = (), sent = []\<rparr>
   = (Responded \<lparr>status = 200, json = JObject [(lit ''weatherCode'', JNumber 2)]\<rparr>,
      \<lparr>world = (),
       sent = [GetObjectCommand \<lparr>Bucket = JString (lit ''daily-weather-output-mscac''),
                                  Key = lit ''daily-data/prediction.json''\<rparr>]\<rparr>)\<close>
  (is \<open>get_weather ?rt ?client ?env ?sys = _\<close>)
proof -
  let ?document = "JObject [(lit ''weatherCode'', JNumber 2)]"
  have plain: "plain_json ?document" by simp
  have "get_weather ?rt ?client ?env ?sys =
          (Responded \<lparr>status = 200, json = stringified ?document\<rparr>,
           \<lparr>world = (),
            sent = sent ?sys @ [GetObjectCommand \<lparr>Bucket = S3_BUCKET_NAME ?env, Key = WEATHER_FILE_KEY\<rparr>]\<rparr>)
        \<and> (plain_json ?document \<longrightarrow>
             get_weather ?rt ?client ?env ?sys =
               (Responded \<lparr>status = 200, json = ?document\<rparr>,
                \<lparr>world = (),
                 sent = sent ?sys @ [GetObjectCommand \<lparr>Bucket = S3_BUCKET_NAME ?env, Key = WEATHER_FILE_KEY\<rparr>]\<rparr>))"
    by (rule weather_roundtrip
          [where chunks = \<open>[map of_char ''{"weather'', map of_char ''Code":2}'']\<close>
             and later = \<open>[]\<close>])
       (simp_all add: lit_def)
  with plain show ?thesis
    by (simp add: S3_BUCKET_NAME_def WEATHER_FILE_KEY_def js_or_def process_env_def)
qed

section \<open>C2: a valid subscription is written under its sanitised key\<close>

text \<open>
  C2. For a request body whose \<^verbatim>\<open>email\<close> field is a string containing \<^verbatim>\<open>@\<close>, when the
  store acknowledges the write, \<^verbatim>\<open>POST /subscribe\<close> responds with status 201, and the one
  command it sent is a write to the key \<^verbatim>\<open>subscribers/\<close> followed by the sanitised
  email, with content type \<^verbatim>\<open>text/plain\<close> and the original, unsanitised email as the
  object's body.
\<close>

theorem subscribe_writes_email:
  assumes "map_of props (lit ''email'') = Some (JString e)"
    and "of_char CHR ''@'' \<in> set e"
    and "client (PutObjectCommand \<lparr>Bucket = S3_BUCKET_NAME env,
                                    Key = lit ''subscribers/'' @ sanitize e,
                                    Body = JString e,
                                    ContentType = lit ''text/plain''\<rparr>) (world sys)
           = (Fulfilled ack, w)"
  shows "post_subscribe client env (JObject props) sys =
           (Responded \<lparr>status = 201,
                       json = JObject [(lit ''message'', JString (lit ''Subscription successful!''))]\<rparr>,
            \<lparr>world = w,
             sent = sent sys @ [PutObjectCommand \<lparr>Bucket = S3_BUCKET_NAME env,
                                                  Key = lit ''subscribers/'' @ sanitize e,
                                                  Body = JString e,
                                                  ContentType = lit ''text/plain''\<rparr>]\<rparr>)"
proof -
  have "body_email (JObject props) = Inr (JString e)"
    using assms(1) by simp
  then have "post_subscribe client env (JObject props) sys =
               subscribe_put client env (JString e) (sanitize e) sys"
    using assms(2) by (rule post_subscribe_string)
  then show ?thesis
    using assms(3) by (simp add: subscribe_put_def s3Client_send_def SUBSCRIPTIONS_PATH_def)
qed

text \<open>
  Scenario 5 of the specification, against a store that acknowledges every command and
  keeps the commands it received.
\<close>

theorem subscribe_writes_email_witness:
  "post_subscribe (\<lambda>command w. (Fulfilled PutObjectOutput, command # w)) []
     (JObject [(lit ''email'', JString (lit ''weird!!@x.com''))]) \<lparr>world = [], sent = []\<rparr>
   = (Responded \<lparr>status = 201,
                 json = JObject [(lit ''message'', JString (lit ''Subscription successful!''))]\<rparr>,
      \<lparr>world = [PutObjectCommand \<lparr>Bucket = JString (lit ''daily-weather-output-mscac''),
                                    Key = lit ''subscribers/weird@x.com'',
                                    Body = JString (lit ''weird!!@x.com''),
                                    ContentType = lit ''text/plain''\<rparr>],
       sent = [PutObjectCommand \<lparr>Bucket = JString (lit ''daily-weather-output-mscac''),
                                   Key = lit ''subscribers/weird@x.com'',
                                   Body = JString (lit ''weird!!@x.com''),
                                   ContentType = lit ''text/plain''\<rparr>]\<rparr>)"
  (is "post_subscribe ?client ?env ?body ?sys = _")
proof -
  let ?put = "PutObjectCommand \<lparr>Bucket = S3_BUCKET_NAME ?env,
                                 Key = lit ''subscribers/'' @ sanitize (lit ''weird!!@x.com''),
                                 Body = JString (lit ''weird!!@x.com''),
                                 ContentType = lit ''text/plain''\<rparr>"
  have "post_subscribe ?client ?env ?body ?sys =
          (Responded \<lparr>status = 201,
                      json = JObject [(lit ''message'', JString (lit ''Subscription successful!''))]\<rparr>,
           \<lparr>world = [?put], sent = sent ?sys @ [?put]\<rparr>)"
    by (rule subscribe_writes_email [where e = "lit ''weird!!@x.com''" and ack = PutObjectOutput])
       (simp_all add: lit_def)
  moreover have "sanitize (lit ''weird!!@x.com'') = lit ''weird@x.com''"
    by (simp add: sanitize_def lit_def email_pattern_def class_matches_def)
  ultimately show ?thesis
    by (simp add: S3_BUCKET_NAME_def js_or_def process_env_def lit_def)
qed

section \<open>C3: an invalid subscription is refused before any store call\<close>

text \<open>
  C3. For a request body whose \<^verbatim>\<open>email\<close> field is absent, the empty string, or a string
  without \<^verbatim>\<open>@\<close>, \<^verbatim>\<open>POST /subscribe\<close> responds with status 400 and leaves the system as
  it was: no command is sent to the store and the state of the store is unchanged.
\<close>

theorem subscribe_rejects_invalid:
  assumes "map_of props (lit ''email'') = None
           \<or> map_of props (lit ''email'') = Some (JString [])
           \<or> map_of props (lit ''email'') = Some (JString e) \<and> of_char CHR ''@'' \<notin> set e"
  shows "post_subscribe client env (JObject props) sys =
           (Responded \<lparr>status = 400,
                       json = JObject [(lit ''message'',
                                        JString (lit ''Invalid email address provided.''))]\<rparr>,
            sys)"
proof -
  from assms consider
      (absent) "map_of props (lit ''email'') = None"
    | (empty) "map_of props (lit ''email'') = Some (JString [])"
    | (no_at) "map_of props (lit ''email'') = Some (JString e)" "of_char CHR ''@'' \<notin> set e"
    by auto
  then show ?thesis
  proof cases
    case absent
    then have "body_email (JObject props) = Inr JUndefined" by simp
    moreover have "invalid_email JUndefined = Inr True" by (simp add: invalid_email_def)
    ultimately show ?thesis by (rule post_subscribe_invalid)
  next
    case empty
    then have "body_email (JObject props) = Inr (JString [])" by simp
    moreover have "invalid_email (JString []) = Inr True" by (simp add: invalid_email_def)
    ultimately show ?thesis by (rule post_subscribe_invalid)
  next
    case no_at
    from no_at(1) have "body_email (JObject props) = Inr (JString e)" by simp
    moreover from no_at(2) have "invalid_email (JString e) = Inr True"
      by (simp add: invalid_email_string)
    ultimately show ?thesis by (rule post_subscribe_invalid)
  qed
qed

text \<open>
  An empty body, an empty email, and scenario 4 of the specification.
\<close>

theorem subscribe_rejects_invalid_witness:
  "post_subscribe (\<lambda>command w. (Fulfilled PutObjectOutput, command # w)) []
     (JObject []) \<lparr>world = [], sent = []\<rparr>
     = (Responded \<lparr>status = 400,
                   json = JObject [(lit ''message'', JString (lit ''Invalid email address provided.''))]\<rparr>,
        \<lparr>world = [], sent = []\<rparr>)
   \<and> post_subscribe (\<lambda>command w. (Fulfilled PutObjectOutput, command # w)) []
     (JObject [(lit ''email'', JString [])]) \<lparr>world = [], sent = []\<rparr>
     = (Responded \<lparr>status = 400,
                   json = JObject [(lit ''message'', JString (lit ''Invalid email address provided.''))]\<rparr>,
        \<lparr>world = [], sent = []\<rparr>)
   \<and> post_subscribe (\<lambda>command w. (Fulfilled PutObjectOutput, command # w)) []
     (JObject [(lit ''email'', JString (lit ''not-an-email''))]) \<lparr>world = [], sent = []\<rparr>
     = (Responded \<lparr>status = 400,
                   json = JObject [(lit ''message'', JString (lit ''Invalid email address provided.''))]\<rparr>,
        \<lparr>world = [], sent = []\<rparr>)"
proof (intro conjI)
  show "post_subscribe (\<lambda>command w. (Fulfilled PutObjectOutput, command # w)) []
     (JObject []) \<lparr>world = [], sent = []\<rparr>
     = (Responded \<lparr>status = 400,
                   json = JObject [(lit ''message'', JString (lit ''Invalid email address provided.''))]\<rparr>,
        \<lparr>world = [], sent = []\<rparr>)"
    by (rule subscribe_rejects_invalid) simp
  show "post_subscribe (\<lambda>command w. (Fulfilled PutObjectOutput, command # w)) []
     (JObject [(lit ''email'', JString [])]) \<lparr>world = [], sent = []\<rparr>
     = (Responded \<lparr>status = 400,
                   json = JObject [(lit ''message'', JString (lit ''Invalid email address provided.''))]\<rparr>,
        \<lparr>world = [], sent = []\<rparr>)"
    by (rule subscribe_rejects_invalid) simp
  show "post_subscribe (\<lambda>command w. (Fulfilled PutObjectOutput, command # w)) []
     (JObject [(lit ''email'', JString (lit ''not-an-email''))]) \<lparr>world = [], sent = []\<rparr>
     = (Responded \<lparr>status = 400,
                   json = JObject [(lit ''message'', JString (lit ''Invalid email address provided.''))]\<rparr>,
        \<lparr>world = [], sent = []\<rparr>)"
    by (rule subscribe_rejects_invalid [where e = "lit ''not-an-email''"]) (simp add: lit_def)
qed

section \<open>C4: sanitisation\<close>

text \<open>
  C4. Sanitising is a function of the string alone, it is idempotent, and the sanitised
  string is the original with every character outside \<^verbatim>\<open>[A-Za-z0-9\-_.@]\<close> deleted and
  the others kept in their order.
\<close>

theorem sanitize_idempotent_filter:
  "sanitize (sanitize e) = sanitize e \<and> sanitize e = filter retained e"
  by (simp add: sanitize_filter)

section \<open>C5: a missing weather document gives 404\<close>

text \<open>
  C5. When the store rejects the read of the weather key with its \<^verbatim>\<open>NoSuchKey\<close> error,
  \<^verbatim>\<open>GET /weather\<close> responds with status 404 and the body
  \<^verbatim>\<open>{"message":"Weather prediction file not found."}\<close>.
\<close>

theorem weather_not_found:
  assumes "client (GetObjectCommand \<lparr>Bucket = S3_BUCKET_NAME env, Key = WEATHER_FILE_KEY\<rparr>) (world sys)
             = (Rejected error, w)"
    and "name error = lit ''NoSuchKey''"
  shows "get_weather rt client env sys =
           (Responded \<lparr>status = 404,
                       json = JObject [(lit ''message'',
                                        JString (lit ''Weather prediction file not found.''))]\<rparr>,
            \<lparr>world = w,
             sent = sent sys @ [GetObjectCommand \<lparr>Bucket = S3_BUCKET_NAME env, Key = WEATHER_FILE_KEY\<rparr>]\<rparr>)"
  using assms
  by (simp add: get_weather_def weather_try_def s3Client_send_def Let_def weather_catch_def)

text \<open>
  Scenario 2 of the specification.
\<close>

theorem weather_not_found_witness:
  "get_weather \<lparr>toString_utf8 = map ucast, JSON_parse = (\<lambda>s. Inl (lit ''Unexpected token''))\<rparr>
     (\<lambda>command w. (Rejected (JsError (lit ''NoSuchKey'') (lit ''The specified key does not exist.'')), w))
     [] \<lparr>world = (), sent = []\<rparr>
   = (Responded \<lparr>status = 404,
                 json = JObject [(lit ''message'', JString (lit ''Weather prediction file not found.''))]\<rparr>,
      \<lparr>world = (),
       sent = [GetObjectCommand \<lparr>Bucket = JString (lit ''daily-weather-output-mscac''),
                                  Key = lit ''daily-data/prediction.json''\<rparr>]\<rparr>)"
  (is "get_weather ?rt ?client ?env ?sys = _")
proof -
  have "get_weather ?rt ?client ?env ?sys =
          (Responded \<lparr>status = 404,
                      json = JObject [(lit ''message'', JString (lit ''Weather prediction file not found.''))]\<rparr>,
           \<lparr>world = (),
            sent = sent ?sys @ [GetObjectCommand \<lparr>Bucket = S3_BUCKET_NAME ?env, Key = WEATHER_FILE_KEY\<rparr>]\<rparr>)"
    by (rule weather_not_found) simp+
  then show ?thesis
    by (simp add: S3_BUCKET_NAME_def WEATHER_FILE_KEY_def js_or_def process_env_def)
qed

section \<open>C6: every other failure of GET /weather gives 500\<close>

text \<open>
  C6. Whenever the \<^verbatim>\<open>try\<close> block of \<^verbatim>\<open>GET /weather\<close> fails with an error that is not
  named \<^verbatim>\<open>NoSuchKey\<close>, the handler responds with status 500 and a body whose \<^verbatim>\<open>message\<close>
  field is the fixed text and whose \<^verbatim>\<open>error\<close> field is the error's message. In
  particular this is so when the store rejects the read, when the body stream fails, and
  when the stored content does not parse as JSON (the error is then the
  \<^verbatim>\<open>SyntaxError\<close> of \<^verbatim>\<open>JSON.parse\<close>).
\<close>

theorem weather_failure_500:
  "(fst (weather_try rt client env sys) = Rejected error \<and> name error \<noteq> lit ''NoSuchKey''
      \<longrightarrow> fst (get_weather rt client env sys) =
            Responded \<lparr>status = 500,
                       json = JObject [(lit ''message'', JString (lit ''Failed to fetch weather data.'')),
                                       (lit ''error'', JString (message error))]\<rparr>)
   \<and> (fst (client (GetObjectCommand \<lparr>Bucket = S3_BUCKET_NAME env, Key = WEATHER_FILE_KEY\<rparr>) (world sys))
         = Rejected error \<and> name error \<noteq> lit ''NoSuchKey''
      \<longrightarrow> fst (get_weather rt client env sys) =
            Responded \<lparr>status = 500,
                       json = JObject [(lit ''message'', JString (lit ''Failed to fetch weather data.'')),
                                       (lit ''error'', JString (message error))]\<rparr>)
   \<and> (fst (client (GetObjectCommand \<lparr>Bucket = S3_BUCKET_NAME env, Key = WEATHER_FILE_KEY\<rparr>) (world sys))
         = Fulfilled (GetObjectOutput (map Data chunks @ Error error # later))
       \<and> name error \<noteq> lit ''NoSuchKey''
      \<longrightarrow> fst (get_weather rt client env sys) =
            Responded \<lparr>status = 500,
                       json = JObject [(lit ''message'', JString (lit ''Failed to fetch weather data.'')),
                                       (lit ''error'', JString (message error))]\<rparr>)
   \<and> (fst (client (GetObjectCommand \<lparr>Bucket = S3_BUCKET_NAME env, Key = WEATHER_FILE_KEY\<rparr>) (world sys))
         = Fulfilled (GetObjectOutput (map Data chunks @ End # later))
       \<and> JSON_parse rt (toString_utf8 rt (concat chunks)) = Inl msg
      \<longrightarrow> fst (get_weather rt client env sys) =
            Responded \<lparr>status = 500,
                       json = JObject [(lit ''message'', JString (lit ''Failed to fetch weather data.'')),
                                       (lit ''error'', JString msg)]\<rparr>)"
proof (intro conjI impI; elim conjE)
  assume "fst (weather_try rt client env sys) = Rejected error" "name error \<noteq> lit ''NoSuchKey''"
  then show "fst (get_weather rt client env sys) =
            Responded \<lparr>status = 500,
                       json = JObject [(lit ''message'', JString (lit ''Failed to fetch weather data.'')),
                                       (lit ''error'', JString (message error))]\<rparr>"
    by (simp add: get_weather_rejected weather_catch_other)
next
  assume "fst (client (GetObjectCommand \<lparr>Bucket = S3_BUCKET_NAME env, Key = WEATHER_FILE_KEY\<rparr>) (world sys))
            = Rejected error" "name error \<noteq> lit ''NoSuchKey''"
  then show "fst (get_weather rt client env sys) =
            Responded \<lparr>status = 500,
                       json = JObject [(lit ''message'', JString (lit ''Failed to fetch weather data.'')),
                                       (lit ''error'', JString (message error))]\<rparr>"
    by (simp add: weather_try_send_rejected get_weather_rejected weather_catch_other)
next
  assume "fst (client (GetObjectCommand \<lparr>Bucket = S3_BUCKET_NAME env, Key = WEATHER_FILE_KEY\<rparr>) (world sys))
            = Fulfilled (GetObjectOutput (map Data chunks @ Error error # later))"
    "name error \<noteq> lit ''NoSuchKey''"
  then show "fst (get_weather rt client env sys) =
            Responded \<lparr>status = 500,
                       json = JObject [(lit ''message'', JString (lit ''Failed to fetch weather data.'')),
                                       (lit ''error'', JString (message error))]\<rparr>"
    by (simp add: weather_try_stream_error get_weather_rejected weather_catch_other)
next
  assume "fst (client (GetObjectCommand \<lparr>Bucket = S3_BUCKET_NAME env, Key = WEATHER_FILE_KEY\<rparr>) (world sys))
            = Fulfilled (GetObjectOutput (map Data chunks @ End # later))"
    "JSON_parse rt (toString_utf8 rt (concat chunks)) = Inl msg"
  then have "fst (weather_try rt client env sys) = Rejected (SyntaxError msg)"
    by (rule weather_try_parse_error)
  then have "fst (get_weather rt client env sys) = Responded (weather_catch (SyntaxError msg))"
    by (rule get_weather_rejected)
  then show "fst (get_weather rt client env sys) =
            Responded \<lparr>status = 500,
                       json = JObject [(lit ''message'', JString (lit ''Failed to fetch weather data.'')),
                                       (lit ''error'', JString msg)]\<rparr>"
    by (simp add: weather_catch_other [OF SyntaxError_not_NoSuchKey]) (simp add: SyntaxError_def)
qed

text \<open>
  Scenario 6 of the specification (the store cannot be reached), a denied read, a
  connection that breaks while the body is read, and a truncated document.
\<close>

theorem weather_failure_500_witness:
  \<open>fst (get_weather
          \<lparr>toString_utf8 = map ucast,
           JSON_parse = (\<lambda>s. if s = lit ''{"weatherCode":2}''
                              then Inr (JObject [(lit ''weatherCode'', JNumber 2)])
                              else Inl (lit ''Unexpected token''))\<rparr>
          (\<lambda>command w. (Rejected (JsError (lit ''TimeoutError'') (lit ''connect ETIMEDOUT'')), w))
          [] \<lparr>world = (), sent = []\<rparr>)
     = Responded \<lparr>status = 500,
                  json = JObject [(lit ''message'', JString (lit ''Failed to fetch weather data.'')),
                                  (lit ''error'', JString (lit ''connect ETIMEDOUT''))]\<rparr>
   \<and> fst (get_weather
          \<lparr>toString_utf8 = map ucast,
           JSON_parse = (\<lambda>s. if s = lit ''{"weatherCode":2}''
                              then Inr (JObject [(lit ''weatherCode'', JNumber 2)])
                              else Inl (lit ''Unexpected token''))\<rparr>
          (\<lambda>command w. (Rejected (JsError (lit ''AccessDenied'') (lit ''Access Denied'')), w))
          [] \<lparr>world = (), sent = []\<rparr>)
     = Responded \<lparr>status = 500,
                  json = JObject [(lit ''message'', JString (lit ''Failed to fetch weather data.'')),
                                  (lit ''error'', JString (lit ''Access Denied''))]\<rparr>
   \<and> fst (get_weather
          \<lparr>toString_utf8 = map ucast,
           JSON_parse = (\<lambda>s. if s = lit ''{"weatherCode":2}''
                              then Inr (JObject [(lit ''weatherCode'', JNumber 2)])
                              else Inl (lit ''Unexpected token''))\<rparr>
          (\<lambda>command w. (Fulfilled (GetObjectOutput
             [Data (map of_char ''{"weather''), Error (JsError (lit ''Error'') (lit ''aborted''))]), w))
          [] \<lparr>world = (), sent = []\<rparr>)
     = Responded \<lparr>status = 500,
                  json = JObject [(lit ''message'', JString (lit ''Failed to fetch weather data.'')),
                                  (lit ''error'', JString (lit ''aborted''))]\<rparr>
   \<and> fst (get_weather
          \<lparr>toString_utf8 = map ucast,
           JSON_parse = (\<lambda>s. if s = lit ''{"weatherCode":2}''
                              then Inr (JObject [(lit ''weatherCode'', JNumber 2)])
                              else Inl (lit ''Unexpected token''))\<rparr>
          (\<lambda>command w. (Fulfilled (GetObjectOutput [Data (map of_char ''{"weather''), End]), w))
          [] \<lparr>world = (), sent = []\<rparr>)
     = Responded \<lparr>status = 500,
                  json = JObject [(lit ''message'', JString (lit ''Failed to fetch weather data.'')),
                                  (lit ''error'', JString (lit ''Unexpected token''))]\<rparr>\<close>
  (is \<open>fst (get_weather ?rt ?timeout ?env ?sys) = _ \<and> fst (get_weather _ ?denied _ _) = _
       \<and> fst (get_weather _ ?aborted _ _) = _ \<and> fst (get_weather _ ?truncated _ _) = _\<close>)
proof (intro conjI)
  have "fst (weather_try ?rt ?timeout ?env ?sys)
          = Rejected (JsError (lit ''TimeoutError'') (lit ''connect ETIMEDOUT''))"
    by (simp add: weather_try_def s3Client_send_def)
  moreover have "name (JsError (lit ''TimeoutError'') (lit ''connect ETIMEDOUT'')) \<noteq> lit ''NoSuchKey''"
    by (simp add: lit_def)
  ultimately show "fst (get_weather ?rt ?timeout ?env ?sys)
     = Responded \<lparr>status = 500,
                  json = JObject [(lit ''message'', JString (lit ''Failed to fetch weather data.'')),
                                  (lit ''error'', JString (lit ''connect ETIMEDOUT''))]\<rparr>"
    using weather_failure_500
      [where rt = ?rt and client = ?timeout and env = ?env and sys = ?sys
         and error = "JsError (lit ''TimeoutError'') (lit ''connect ETIMEDOUT'')"]
    by simp
next
  have "name (JsError (lit ''AccessDenied'') (lit ''Access Denied'')) \<noteq> lit ''NoSuchKey''"
    by (simp add: lit_def)
  then show "fst (get_weather ?rt ?denied ?env ?sys)
     = Responded \<lparr>status = 500,
                  json = JObject [(lit ''message'', JString (lit ''Failed to fetch weather data.'')),
                                  (lit ''error'', JString (lit ''Access Denied''))]\<rparr>"
    using weather_failure_500
      [where rt = ?rt and client = ?denied and env = ?env and sys = ?sys
         and error = "JsError (lit ''AccessDenied'') (lit ''Access Denied'')"]
    by simp
next
  have "name (JsError (lit ''Error'') (lit ''aborted'')) \<noteq> lit ''NoSuchKey''"
    by (simp add: lit_def)
  then show "fst (get_weather ?rt ?aborted ?env ?sys)
     = Responded \<lparr>status = 500,
                  json = JObject [(lit ''message'', JString (lit ''Failed to fetch weather data.'')),
                                  (lit ''error'', JString (lit ''aborted''))]\<rparr>"
    using weather_failure_500
      [where rt = ?rt and client = ?aborted and env = ?env and sys = ?sys
         and error = "JsError (lit ''Error'') (lit ''aborted'')"
         and chunks = \<open>[map of_char ''{"weather'']\<close> and later = \<open>[]\<close>]
    by simp
next
  show "fst (get_weather ?rt ?truncated ?env ?sys)
     = Responded \<lparr>status = 500,
                  json = JObject [(lit ''message'', JString (lit ''Failed to fetch weather data.'')),
                                  (lit ''error'', JString (lit ''Unexpected token''))]\<rparr>"
    using weather_failure_500
      [where rt = ?rt and client = ?truncated and env = ?env and sys = ?sys
         and msg = "lit ''Unexpected token''"
         and chunks = \<open>[map of_char ''{"weather'']\<close> and later = \<open>[]\<close>]
    by (simp add: lit_def)
qed

section \<open>C7: a request whose email is not a string\<close>

text \<open>
  C7. The claim is that every request ends in one of the documented statuses. For
  \<^verbatim>\<open>POST /subscribe\<close> with the body \<^verbatim>\<open>{"email": 123}\<close> the validation itself throws:
  \<^verbatim>\<open>email.includes\<close> is not a function of a number, and the condition stands outside
  the \<^verbatim>\<open>try\<close> block. The handler ends with an uncaught \<^verbatim>\<open>TypeError\<close>, having sent no
  response and no command.
\<close>

theorem subscribe_number_email_uncaught:
  "post_subscribe client env (JObject [(lit ''email'', JNumber 123)]) sys
     = (Uncaught (TypeError (lit ''email.includes is not a function'')), sys)"
  by (simp add: post_subscribe_def invalid_email_def)

text \<open>
  An array that contains the string \<^verbatim>\<open>@\<close> passes the validation and fails one line
  later, at \<^verbatim>\<open>email.replace\<close>.
\<close>

lemma subscribe_array_email_uncaught:
  "post_subscribe client env (JObject [(lit ''email'', JArray [JString (lit ''@'')])]) sys
     = (Uncaught (TypeError (lit ''email.replace is not a function'')), sys)"
  by (simp add: post_subscribe_def invalid_email_def)

section \<open>C8: configuration defaults\<close>

text \<open>
  C8, as the claim states it, fails for a variable that is set to the empty string:
  \<^verbatim>\<open>process.env.PORT || 3000\<close> falls back to the default for every falsy value, and the
  empty string is falsy.
\<close>

theorem config_empty_variable_counterexample:
  "map_of [(lit ''PORT'', [])] (lit ''PORT'') = Some []
   \<and> PORT [(lit ''PORT'', [])] = JNumber 3000
   \<and> PORT [(lit ''PORT'', [])] \<noteq> JString []"
  by (simp add: PORT_def process_env_def js_or_def)

text \<open>
  C8, amended. When a variable is unset the defaults are port 3000, bucket
  \<^verbatim>\<open>daily-weather-output-mscac\<close> and region \<^verbatim>\<open>us-east-2\<close>; when a variable is set to a
  non-empty string its value is used; when it is set to the empty string the default is
  used.
\<close>

theorem config_defaults:
  "(map_of env (lit ''PORT'') = None \<longrightarrow> PORT env = JNumber 3000)
   \<and> (map_of env (lit ''S3_BUCKET_NAME'') = None
        \<longrightarrow> S3_BUCKET_NAME env = JString (lit ''daily-weather-output-mscac''))
   \<and> (map_of env (lit ''AWS_REGION'') = None \<longrightarrow> S3_REGION env = JString (lit ''us-east-2''))
   \<and> (map_of env (lit ''PORT'') = Some v \<and> v \<noteq> [] \<longrightarrow> PORT env = JString v)
   \<and> (map_of env (lit ''S3_BUCKET_NAME'') = Some v \<and> v \<noteq> [] \<longrightarrow> S3_BUCKET_NAME env = JString v)
   \<and> (map_of env (lit ''AWS_REGION'') = Some v \<and> v \<noteq> [] \<longrightarrow> S3_REGION env = JString v)
   \<and> (map_of env (lit ''PORT'') = Some [] \<longrightarrow> PORT env = JNumber 3000)
   \<and> (map_of env (lit ''S3_BUCKET_NAME'') = Some []
        \<longrightarrow> S3_BUCKET_NAME env = JString (lit ''daily-weather-output-mscac''))
   \<and> (map_of env (lit ''AWS_REGION'') = Some [] \<longrightarrow> S3_REGION env = JString (lit ''us-east-2''))"
  by (simp add: PORT_def S3_BUCKET_NAME_def S3_REGION_def process_env_def js_or_def)

theorem config_defaults_witness:
  "PORT [] = JNumber 3000
   \<and> S3_BUCKET_NAME [] = JString (lit ''daily-weather-output-mscac'')
   \<and> S3_REGION [] = JString (lit ''us-east-2'')
   \<and> PORT [(lit ''PORT'', lit ''8080'')] = JString (lit ''8080'')
   \<and> S3_BUCKET_NAME [(lit ''S3_BUCKET_NAME'', lit ''my-bucket'')] = JString (lit ''my-bucket'')
   \<and> S3_REGION [(lit ''AWS_REGION'', lit ''eu-west-1'')] = JString (lit ''eu-west-1'')
   \<and> PORT [(lit ''PORT'', [])] = JNumber 3000
   \<and> S3_BUCKET_NAME [(lit ''S3_BUCKET_NAME'', [])] = JString (lit ''daily-weather-output-mscac'')
   \<and> S3_REGION [(lit ''AWS_REGION'', [])] = JString (lit ''us-east-2'')"
  using config_defaults [of "[]"]
    config_defaults [of "[(lit ''PORT'', lit ''8080'')]" "lit ''8080''"]
    config_defaults [of "[(lit ''S3_BUCKET_NAME'', lit ''my-bucket'')]" "lit ''my-bucket''"]
    config_defaults [of "[(lit ''AWS_REGION'', lit ''eu-west-1'')]" "lit ''eu-west-1''"]
    config_defaults [of "[(lit ''PORT'', [])]"]
    config_defaults [of "[(lit ''S3_BUCKET_NAME'', [])]"]
    config_defaults [of "[(lit ''AWS_REGION'', [])]"]
  by (simp add: lit_def)

section \<open>C9: what the validation tests\<close>

text \<open>
  C9. For a string, the validation fails exactly when the string has no \<^verbatim>\<open>@\<close> (the
  empty string included) and tests nothing else: the one-character string \<^verbatim>\<open>@\<close> is
  accepted, and the handler sends a write to the key \<^verbatim>\<open>subscribers/@\<close>.
\<close>

theorem validation_only_tests_at:
  "invalid_email (JString e) = Inr (of_char CHR ''@'' \<notin> set e)
   \<and> invalid_email (JString (lit ''@'')) = Inr False
   \<and> sent (snd (post_subscribe client env (JObject [(lit ''email'', JString (lit ''@''))]) sys))
       = sent sys @ [PutObjectCommand \<lparr>Bucket = S3_BUCKET_NAME env, Key = lit ''subscribers/@'',
                                         Body = JString (lit ''@''),
                                         ContentType = lit ''text/plain''\<rparr>]"
proof (intro conjI)
  show "invalid_email (JString e) = Inr (of_char CHR ''@'' \<notin> set e)"
    by (rule invalid_email_string)
  show "invalid_email (JString (lit ''@'')) = Inr False"
    by (simp add: invalid_email_string lit_def)
  have "post_subscribe client env (JObject [(lit ''email'', JString (lit ''@''))]) sys
          = subscribe_put client env (JString (lit ''@'')) (sanitize (lit ''@'')) sys"
    by (rule post_subscribe_string) (simp_all add: lit_def)
  moreover have "sanitize (lit ''@'') = lit ''@''"
    by (simp add: sanitize_def lit_def email_pattern_def class_matches_def)
  ultimately show "sent (snd (post_subscribe client env (JObject [(lit ''email'', JString (lit ''@''))]) sys))
       = sent sys @ [PutObjectCommand \<lparr>Bucket = S3_BUCKET_NAME env, Key = lit ''subscribers/@'',
                                         Body = JString (lit ''@''),
                                         ContentType = lit ''text/plain''\<rparr>]"
    by (simp add: subscribe_put_sent SUBSCRIPTIONS_PATH_def lit_def)
qed

section \<open>C10: subscriber keys never meet the weather key\<close>

text \<open>
  C10. For every string the validation accepts, the sanitised string still contains
  \<^verbatim>\<open>@\<close> and so is not empty; and whatever the request body and the store, every write
  that \<^verbatim>\<open>POST /subscribe\<close> sends has a key that strictly extends \<^verbatim>\<open>subscribers/\<close> and
  differs from the weather key.
\<close>

theorem subscriber_keys_extend_prefix:
  "(invalid_email (JString e) = Inr False
      \<longrightarrow> of_char CHR ''@'' \<in> set (sanitize e) \<and> sanitize e \<noteq> [])
   \<and> (PutObjectCommand p \<in> set (drop (length (sent sys))
                                   (sent (snd (post_subscribe client env body sys))))
      \<longrightarrow> strict_prefix SUBSCRIPTIONS_PATH (Key p) \<and> Key p \<noteq> WEATHER_FILE_KEY)"
proof (intro conjI impI)
  assume "invalid_email (JString e) = Inr False"
  then have "of_char CHR ''@'' \<in> set e" by (simp add: invalid_email_string)
  then show "of_char CHR ''@'' \<in> set (sanitize e)" by (rule sanitize_keeps_at)
  then show "sanitize e \<noteq> []" by auto
next
  assume put: "PutObjectCommand p \<in> set (drop (length (sent sys))
                                   (sent (snd (post_subscribe client env body sys))))"
  from post_subscribe_sent [of client env body sys] put
  obtain a where a: "of_char CHR ''@'' \<in> set a" "Key p = SUBSCRIPTIONS_PATH @ sanitize a"
    by auto
  from a(1) have "sanitize a \<noteq> []" using sanitize_keeps_at [of a] by auto
  with a(2) show "strict_prefix SUBSCRIPTIONS_PATH (Key p)" by (simp add: strict_prefix_def)
  from a(2) show "Key p \<noteq> WEATHER_FILE_KEY" by (simp add: subscriber_key_not_weather_key)
qed

text \<open>
  Scenario 3 of the specification.
\<close>

theorem subscriber_keys_extend_prefix_witness:
  "(of_char CHR ''@'' \<in> set (sanitize (lit ''a@b.com'')) \<and> sanitize (lit ''a@b.com'') \<noteq> [])
   \<and> strict_prefix SUBSCRIPTIONS_PATH (lit ''subscribers/a@b.com'')
   \<and> lit ''subscribers/a@b.com'' \<noteq> WEATHER_FILE_KEY"
proof -
  let ?client = "\<lambda>command w. (Fulfilled PutObjectOutput, command # w) :: s3_output promise \<times> command list"
  let ?body = "JObject [(lit ''email'', JString (lit ''a@b.com''))]"
  let ?sys = "\<lparr>world = [], sent = []\<rparr>"
  let ?p = "\<lparr>Bucket = S3_BUCKET_NAME [], Key = lit ''subscribers/a@b.com'',
             Body = JString (lit ''a@b.com''), ContentType = lit ''text/plain''\<rparr>"
  have valid: "invalid_email (JString (lit ''a@b.com'')) = Inr False"
    by (simp add: invalid_email_def lit_def)
  have clean: "sanitize (lit ''a@b.com'') = lit ''a@b.com''"
    by (simp add: sanitize_def lit_def email_pattern_def class_matches_def)
  have "post_subscribe ?client [] ?body ?sys
          = subscribe_put ?client [] (JString (lit ''a@b.com'')) (sanitize (lit ''a@b.com'')) ?sys"
    by (rule post_subscribe_string) (simp_all add: lit_def)
  then have "sent (snd (post_subscribe ?client [] ?body ?sys)) = [PutObjectCommand ?p]"
    by (simp add: subscribe_put_sent clean SUBSCRIPTIONS_PATH_def lit_append)
  then have put: "PutObjectCommand ?p \<in> set (drop (length (sent ?sys))
                                   (sent (snd (post_subscribe ?client [] ?body ?sys))))"
    by simp
  from subscriber_keys_extend_prefix [of "lit ''a@b.com''" ?p ?sys ?client "[]" ?body] valid put
  show ?thesis by simp
qed

end
